theory Spec2Isabelle
  imports Complex_Main
begin

section \<open>Errors\<close>

text \<open>
  Go errors are values. The sentinel errors the code compares against with
  \<open>errors.Is\<close> are constructors of their own; every other error (a driver fault, a
  context deadline, a malformed bcrypt hash, a failed write) is \<open>OtherError\<close> with its
  message.
\<close>

datatype error =
    ErrMismatchedHashAndPassword
  | ErrHashTooShort
  | ErrNoRows
  | ErrRecordNotFound
  | ErrDuplicateEmail
  | ErrEditConflict
  | OtherError string

section \<open>internal/data/users.go: the data model\<close>

text \<open>
  \<open>plainText\<close> is a \<open>*string\<close> and \<open>hash\<close> a \<open>[]byte\<close>: both can be nil, which is
  \<open>None\<close>. A Go string is a sequence of bytes, as \<open>string\<close> is here, and \<open>len\<close> counts
  bytes.
\<close>

record password =
  plainText :: "string option"
  hash :: "string option"

record User =
  ID :: int
  CreatedAt :: int
  Name :: string
  Email :: string
  Password :: password
  Activated :: bool
  Version :: int

section \<open>internal/validator\<close>

text \<open>
  Modelled from the spec: the package \<open>internal/validator\<close> (\<open>New\<close>, \<open>Valid\<close>, \<open>AddError\<close>,
  \<open>Check\<close>) is not among the source files. The spec has it accumulate \<open>(field, message)\<close>
  pairs, the first message recorded for a field winning, and be valid iff nothing is
  recorded. The mapping is kept as an association list with at most one entry per field.
\<close>

record Validator =
  Errors :: "(string \<times> string) list"

definition New :: Validator where
  "New = \<lparr>Errors = []\<rparr>"

definition Valid :: "Validator \<Rightarrow> bool" where
  "Valid v = (length (Errors v) = 0)"

definition AddError :: "Validator \<Rightarrow> string \<Rightarrow> string \<Rightarrow> Validator" where
  "AddError v key message =
     (case map_of (Errors v) key of
        Some _ \<Rightarrow> v
      | None \<Rightarrow> v\<lparr>Errors := Errors v @ [(key, message)]\<rparr>)"

definition Check :: "Validator \<Rightarrow> bool \<Rightarrow> string \<Rightarrow> string \<Rightarrow> Validator" where
  "Check v ok key message = (if \<not> ok then AddError v key message else v)"

section \<open>bcrypt\<close>

text \<open>
  \<open>golang.org/x/crypto/bcrypt\<close> is a library, and \<open>GenerateFromPassword\<close> draws a random
  salt: both functions are parameters of the model. \<open>bcrypt_generate\<close> is what
  \<open>GenerateFromPassword(password, cost)\<close> returns at this call, \<open>bcrypt_compare\<close> what
  \<open>CompareHashAndPassword(hash, password)\<close> returns: \<open>None\<close> for a nil error (the
  password matches), \<open>Some ErrMismatchedHashAndPassword\<close> for a well-formed hash of
  another password, and another error for a hash that cannot be parsed.
\<close>

type_synonym bcrypt_generate = "string \<Rightarrow> nat \<Rightarrow> error + string"
type_synonym bcrypt_compare = "string option \<Rightarrow> string \<Rightarrow> error option"

section \<open>password.Set and password.Matches\<close>

text \<open>
  \<open>Set\<close> mutates its receiver and returns an error: the model returns the error and the
  receiver after the call.
\<close>

definition password_Set :: "bcrypt_generate \<Rightarrow> password \<Rightarrow> string \<Rightarrow> error option \<times> password" where
  "password_Set GenerateFromPassword p plainText' =
     (case GenerateFromPassword plainText' 12 of
        Inl err \<Rightarrow> (Some err, p)
      | Inr hash' \<Rightarrow> (None, p\<lparr>plainText := Some plainText', hash := Some hash'\<rparr>))"

definition password_Matches :: "bcrypt_compare \<Rightarrow> password \<Rightarrow> string \<Rightarrow> bool \<times> error option" where
  "password_Matches CompareHashAndPassword p plainText' =
     (case CompareHashAndPassword (hash p) plainText' of
        Some err \<Rightarrow>
          (if err = ErrMismatchedHashAndPassword then (False, None) else (False, Some err))
      | None \<Rightarrow> (True, None))"

section \<open>The validation functions\<close>

text \<open>
  \<open>validator.Matches(email, validator.EmailRX)\<close> runs a regular expression of the
  validator package: the predicate \<open>rx\<close>, true of the strings the expression matches,
  is a parameter.
\<close>

definition ValidateEmail :: "(string \<Rightarrow> bool) \<Rightarrow> Validator \<Rightarrow> string \<Rightarrow> Validator" where
  "ValidateEmail rx v email =
     (let v = Check v (email \<noteq> []) ''email'' ''must be provided'';
          v = Check v (rx email) ''email'' ''must be a valid email''
      in v)"

definition ValidatePasswordPlainText :: "Validator \<Rightarrow> string \<Rightarrow> Validator" where
  "ValidatePasswordPlainText v password' =
     (let v = Check v (password' \<noteq> []) ''password'' ''must be provided'';
          v = Check v (length password' \<ge> 8) ''password'' ''must be more than 8 characters'';
          v = Check v (length password' \<le> 32) ''password''
                ''must not be lower than 32 characters''
      in v)"

text \<open>
  \<open>ValidateUser\<close> either returns, with the validator it has filled, or panics:
  \<open>Inl\<close> carries the panic's message.
\<close>

definition ValidateUser :: "(string \<Rightarrow> bool) \<Rightarrow> Validator \<Rightarrow> User \<Rightarrow> string + Validator" where
  "ValidateUser rx v u =
     (let v = Check v (Name u \<noteq> []) ''name'' ''must be provided'';
          v = Check v (length (Email u) \<le> 500) ''email''
                ''must not be more than 500 characters'';
          v = ValidateEmail rx v (Email u);
          v = (case plainText (Password u) of
                 Some pt \<Rightarrow> ValidatePasswordPlainText v pt
               | None \<Rightarrow> v)
      in if hash (Password u) = None then Inl ''missing password hash for user''
         else Inr v)"

section \<open>The store\<close>

text \<open>
  The database behind \<open>UserModel.DB\<close> is a value: the rows of the two tables the queries
  read, and \<open>fault\<close>, the error the driver returns instead of an answer when the store
  fails or the three-second deadline of the context passes (\<open>None\<close> when it answers).
  Times are instants in nanoseconds since the Unix epoch.
\<close>

record users_row =
  users_id :: int
  users_created_at :: int
  users_name :: string
  users_email :: string
  users_password_hash :: "string option"
  users_activated :: bool
  users_version :: int

record tokens_row =
  tokens_hash :: string
  tokens_user_id :: int
  tokens_expiry :: int
  tokens_scope :: string

record DB =
  users :: "users_row list"
  tokens :: "tokens_row list"
  fault :: "error option"

text \<open>
  \<open>QueryRowContext(...).Scan(...)\<close>: the driver's error if there is one, \<open>sql.ErrNoRows\<close>
  when the query selects nothing, and otherwise the first selected row, scanned into a
  zero \<open>User\<close> (whose \<open>Password.plainText\<close> stays nil). The queries have no
  \<open>ORDER BY\<close>; rows are taken in table order.
\<close>

definition Scan :: "users_row \<Rightarrow> User" where
  "Scan r =
     \<lparr>ID = users_id r, CreatedAt = users_created_at r, Name = users_name r,
      Email = users_email r,
      Password = \<lparr>plainText = None, hash = users_password_hash r\<rparr>,
      Activated = users_activated r, Version = users_version r\<rparr>"

definition QueryRow :: "DB \<Rightarrow> users_row list \<Rightarrow> error + User" where
  "QueryRow db rows =
     (case fault db of
        Some err \<Rightarrow> Inl err
      | None \<Rightarrow> (case rows of [] \<Rightarrow> Inl ErrNoRows | r # _ \<Rightarrow> Inr (Scan r)))"

definition GetByEmail :: "DB \<Rightarrow> string \<Rightarrow> error + User" where
  "GetByEmail m email =
     (case QueryRow m [u \<leftarrow> users m. users_email u = email] of
        Inl err \<Rightarrow> (if err = ErrNoRows then Inl ErrRecordNotFound else Inl err)
      | Inr user \<Rightarrow> Inr user)"

text \<open>
  The query of \<open>GetForToken\<close> joins \<open>users\<close> to \<open>tokens\<close> on the user id and keeps the
  rows with \<open>tokens.scope = $1 AND tokens.hash = $2\<close>, where \<open>$1\<close> is \<open>tokenScope\<close> and
  \<open>$2\<close> is \<open>tokenPlainText\<close> as it was passed in. It has no other condition.
\<close>

definition GetForToken :: "DB \<Rightarrow> string \<Rightarrow> string \<Rightarrow> error + User" where
  "GetForToken m tokenScope tokenPlainText =
     (case QueryRow m
             (concat (map (\<lambda>u. map (\<lambda>t. u)
                [t \<leftarrow> tokens m. users_id u = tokens_user_id t
                     \<and> tokens_scope t = tokenScope \<and> tokens_hash t = tokenPlainText])
                (users m))) of
        Inl err \<Rightarrow> (if err = ErrNoRows then Inl ErrRecordNotFound else Inl err)
      | Inr user \<Rightarrow> Inr user)"

section \<open>Session claims\<close>

text \<open>
  \<open>time.Hour\<close> is a duration in nanoseconds and \<open>Time.Add\<close> adds it to an instant.
  A \<open>jwt.NumericTime\<close> is a \<open>float64\<close>, a number of seconds since the Unix epoch: its
  value is a rational number. The claims hold pointers to such numbers, nil being
  \<open>None\<close>. The function \<open>jwt.NewNumericTime\<close>, which converts an instant, belongs to the
  library and is a parameter of the model (a field of \<open>application\<close> below).
\<close>

definition Hour :: int where
  "Hour = 3600 * 1000000000"

definition Add :: "int \<Rightarrow> int \<Rightarrow> int" where
  "Add t d = t + d"

type_synonym NumericTime = rat

record Claims =
  Subject :: string
  Issued :: "NumericTime option"
  NotBefore :: "NumericTime option"
  Expires :: "NumericTime option"
  Issuer :: string
  Audiences :: "string list"

datatype Algorithm = HS256 | HS384 | HS512

text \<open>\<open>strconv.FormatInt(i, 10)\<close>: the decimal digits of \<open>i\<close>, after a minus sign when negative.\<close>

definition digit :: "nat \<Rightarrow> char" where
  "digit d = ''0123456789'' ! d"

function formatBits :: "nat \<Rightarrow> string" where
  "formatBits u = (if u < 10 then [digit u] else formatBits (u div 10) @ [digit (u mod 10)])"
  by pat_completeness auto
termination
  by (relation "measure id") auto

declare formatBits.simps [simp del]

definition FormatInt :: "int \<Rightarrow> string" where
  "FormatInt i = (if i < 0 then CHR ''-'' # formatBits (nat (- i)) else formatBits (nat i))"

section \<open>cmd/api/tokens.go: the handlers\<close>

text \<open>
  Modelled from the spec: \<open>data.Token\<close> and the scope constants are declared in a file that
  is not among the sources; the spec lists the token's fields and the scope tags.
\<close>

record Token =
  PlainText :: string
  Hash :: string
  UserID :: int
  Expiry :: int
  Scope :: string

definition ScopeActivation :: string where
  "ScopeActivation = ''activation''"

definition ScopePasswordReset :: string where
  "ScopePasswordReset = ''password_reset''"

text \<open>
  What a handler reaches through \<open>app\<close> and through the libraries. The user model is
  the store above. \<open>Tokens_New\<close> is what \<open>app.models.Tokens.New(userID, ttl, scope)\<close>
  returns, \<open>mailer_Send\<close> what \<open>app.mailer.Send(recipient, templateFile, data)\<close> returns,
  \<open>HMACSign\<close> what \<open>claims.HMACSign(alg, secret)\<close> returns, \<open>NewNumericTime\<close> what
  \<open>jwt.NewNumericTime(t)\<close> returns, \<open>Now k\<close> what the handler's call number \<open>k\<close> of
  \<open>time.Now()\<close> returns, and \<open>write_err\<close> the error of writing the JSON response
  (\<open>None\<close> when the write succeeds).
\<close>

record application =
  config_jwt_secret :: string
  models_Users :: DB
  Tokens_New :: "int \<Rightarrow> int \<Rightarrow> string \<Rightarrow> error + Token"
  mailer_Send :: "string \<Rightarrow> string \<Rightarrow> (string \<times> string) list \<Rightarrow> error option"
  EmailRX :: "string \<Rightarrow> bool"
  CompareHashAndPassword :: bcrypt_compare
  HMACSign :: "Algorithm \<Rightarrow> string \<Rightarrow> Claims \<Rightarrow> error + string"
  NewNumericTime :: "int \<Rightarrow> NumericTime option"
  Now :: "nat \<Rightarrow> int"
  write_err :: "error option"

text \<open>
  The response helpers of \<open>app\<close> are not among the sources. A response is the helper
  that was called on the \<open>http.ResponseWriter\<close> with the data passed to it: for
  \<open>writeJSON\<close> the status code and the envelope, a map from string to string here.
  A handler's result is the list of these calls, in order.
\<close>

datatype response =
    badRequestResponse error
  | failedValidationResponse "(string \<times> string) list"
  | invalidCredentialsResponse
  | notFoundResponse
  | serverErrorResponse error
  | writeJSON nat "(string \<times> string) list"

definition StatusCreated :: nat where
  "StatusCreated = 201"

definition StatusAccepted :: nat where
  "StatusAccepted = 202"

text \<open>
  \<open>if err := app.writeJSON(w, status, envelope, nil); err != nil
  { app.serverErrorResponse(w, r, err) }\<close>, the last statement of each handler.
\<close>

definition respondJSON :: "application \<Rightarrow> nat \<Rightarrow> (string \<times> string) list \<Rightarrow> response list" where
  "respondJSON app status envelope =
     (case write_err app of
        None \<Rightarrow> [writeJSON status envelope]
      | Some err \<Rightarrow> [writeJSON status envelope, serverErrorResponse err])"

record authentication_input =
  input_Email :: string
  input_Password :: string

text \<open>
  The claims the authentication handler fills in for \<open>user\<close>, statement by statement:
  the subject, then three \<open>time.Now()\<close> calls, one for each of \<open>Issued\<close>, \<open>NotBefore\<close>
  and \<open>Expires\<close>, then the issuer and the audiences.
\<close>

definition claims :: "application \<Rightarrow> User \<Rightarrow> Claims" where
  "claims app user =
     \<lparr>Subject = FormatInt (ID user),
      Issued = NewNumericTime app (Now app 0),
      NotBefore = NewNumericTime app (Now app 1),
      Expires = NewNumericTime app (Add (Now app 2) (24 * Hour)),
      Issuer = ''agung96tm.com'',
      Audiences = [''agung96tm.com'']\<rparr>"

text \<open>
  \<open>body\<close> is what \<open>app.readJSON(w, r, &input)\<close> gives: its error, or the decoded input.
\<close>

definition createAuthenticationHandler ::
  "application \<Rightarrow> error + authentication_input \<Rightarrow> response list" where
  "createAuthenticationHandler app body =
     (case body of
        Inl err \<Rightarrow> [badRequestResponse err]
      | Inr input \<Rightarrow>
          let v = New;
              v = ValidateEmail (EmailRX app) v (input_Email input);
              v = ValidatePasswordPlainText v (input_Password input)
          in if \<not> Valid v then [failedValidationResponse (Errors v)]
             else
               (case GetByEmail (models_Users app) (input_Email input) of
                  Inl err \<Rightarrow>
                    (if err = ErrRecordNotFound then [invalidCredentialsResponse]
                     else [serverErrorResponse err])
                | Inr user \<Rightarrow>
                    (case password_Matches (CompareHashAndPassword app) (Password user)
                            (input_Password input) of
                       (match, Some err) \<Rightarrow> [serverErrorResponse err]
                     | (match, None) \<Rightarrow>
                         if \<not> match then [invalidCredentialsResponse]
                         else
                           (case HMACSign app HS256 (config_jwt_secret app)
                                   (claims app user) of
                              Inl err \<Rightarrow> [serverErrorResponse err]
                            | Inr jwtBytes \<Rightarrow>
                                respondJSON app StatusCreated
                                  [(''authentication_token'', jwtBytes)]))))"

text \<open>
  \<open>app.background(func() {...})\<close> hands a closure to another goroutine. The two closures
  of this file differ in the values they capture only: a closure is the record of these
  values, and \<open>run_closure\<close> is the body both share: call \<open>app.mailer.Send\<close>, and print
  the error to the log when there is one. What a closure changes is the \<open>world\<close>: the
  log, a list of the errors printed, and the calls the mailer has received, each with
  its recipient, template file and data.
\<close>

record closure =
  recipient :: string
  templateFile :: string
  data :: "(string \<times> string) list"

record world =
  logger :: "error list"
  mailer_calls :: "(string \<times> string \<times> (string \<times> string) list) list"

definition run_closure :: "application \<Rightarrow> closure \<Rightarrow> world \<Rightarrow> world" where
  "run_closure app c w =
     (let w = w\<lparr>mailer_calls := mailer_calls w @ [(recipient c, templateFile c, data c)]\<rparr>
      in case mailer_Send app (recipient c) (templateFile c) (data c) of
           Some err \<Rightarrow> w\<lparr>logger := logger w @ [err]\<rparr>
         | None \<Rightarrow> w)"

text \<open>
  A handler that dispatches work returns the calls on the response writer and the
  closures it handed to \<open>app.background\<close>.
\<close>

record handled =
  responses :: "response list"
  background :: "closure list"

definition reply :: "response list \<Rightarrow> handled" where
  "reply rs = \<lparr>responses = rs, background = []\<rparr>"

record email_input =
  in_Email :: string

definition createPasswordResetTokenHandler :: "application \<Rightarrow> error + email_input \<Rightarrow> handled" where
  "createPasswordResetTokenHandler app body =
     (case body of
        Inl err \<Rightarrow> reply [badRequestResponse err]
      | Inr input \<Rightarrow>
          let v = ValidateEmail (EmailRX app) New (in_Email input)
          in if \<not> Valid v then reply [failedValidationResponse (Errors v)]
             else
               (case GetByEmail (models_Users app) (in_Email input) of
                  Inl err \<Rightarrow>
                    (if err = ErrRecordNotFound then reply [notFoundResponse]
                     else reply [serverErrorResponse err])
                | Inr user \<Rightarrow>
                    if \<not> Activated user
                    then reply [failedValidationResponse
                                  (Errors (AddError v ''email'' ''user is not activated''))]
                    else
                      (case Tokens_New app (ID user) (24 * Hour) ScopePasswordReset of
                         Inl err \<Rightarrow> reply [serverErrorResponse err]
                       | Inr token \<Rightarrow>
                           \<lparr>responses = respondJSON app StatusAccepted
                              [(''message'', ''Success to Send Reset Password'')],
                            background =
                              [\<lparr>recipient = Email user,
                                templateFile = ''token_password_reset'',
                                data = [(''passwordResetToken'', PlainText token)]\<rparr>]\<rparr>)))"

definition createActivationTokenHandler :: "application \<Rightarrow> error + email_input \<Rightarrow> handled" where
  "createActivationTokenHandler app body =
     (case body of
        Inl err \<Rightarrow> reply [badRequestResponse err]
      | Inr input \<Rightarrow>
          let v = ValidateEmail (EmailRX app) New (in_Email input)
          in if \<not> Valid v then reply [failedValidationResponse (Errors v)]
             else
               (case GetByEmail (models_Users app) (in_Email input) of
                  Inl err \<Rightarrow>
                    (if err = ErrRecordNotFound
                     then reply [failedValidationResponse
                                   (Errors (AddError v ''email'' ''user is not activated''))]
                     else reply [serverErrorResponse err])
                | Inr user \<Rightarrow>
                    if Activated user
                    then reply [failedValidationResponse
                                  (Errors (AddError v ''email'' ''user is activated''))]
                    else
                      (case Tokens_New app (ID user) (24 * Hour) ScopeActivation of
                         Inl err \<Rightarrow> reply [serverErrorResponse err]
                       | Inr token \<Rightarrow>
                           \<lparr>responses = respondJSON app StatusAccepted
                              [(''message'', ''success send email activation'')],
                            background =
                              [\<lparr>recipient = Email user,
                                templateFile = ''token_activation'',
                                data = [(''activationToken'', PlainText token)]\<rparr>]\<rparr>)))"

text \<open>
  A request served to its end: the handler's calls on the response writer, and the
  world after every dispatched closure has run, starting from an empty log and a mailer
  that has received nothing.
\<close>

definition serve :: "handled \<Rightarrow> application \<Rightarrow> response list \<times> world" where
  "serve h app =
     (responses h,
      fold (run_closure app) (background h) \<lparr>logger = [], mailer_calls = []\<rparr>)"

section \<open>Example values\<close>

text \<open>
  Concrete values on which the theorems below are run. The library functions are
  replaced by small stand-ins (the real ones cannot be evaluated here); they are used
  in the examples only, and every general theorem holds for any library behaviour.
\<close>

definition example_GenerateFromPassword :: bcrypt_generate where
  "example_GenerateFromPassword pw cost = Inr (''$2a$12$'' @ rev pw)"

definition example_CompareHashAndPassword :: bcrypt_compare where
  "example_CompareHashAndPassword h pw =
     (case h of
        None \<Rightarrow> Some ErrHashTooShort
      | Some s \<Rightarrow>
          if take 7 s \<noteq> ''$2a$12$'' then Some (OtherError ''invalid hash prefix'')
          else if drop 7 s = rev pw then None
          else Some ErrMismatchedHashAndPassword)"

definition example_EmailRX :: "string \<Rightarrow> bool" where
  "example_EmailRX s = (CHR ''@'' \<in> set s)"

definition alice :: users_row where
  "alice =
     \<lparr>users_id = 1, users_created_at = 1600000000000000000, users_name = ''Alice'',
      users_email = ''alice@example.com'',
      users_password_hash = Some ''$2a$12$drow55ap'',
      users_activated = True, users_version = 1\<rparr>"

definition bob :: users_row where
  "bob =
     \<lparr>users_id = 2, users_created_at = 1600000000000000000, users_name = ''Bob'',
      users_email = ''bob@example.com'',
      users_password_hash = Some ''$2a$12$terces-s-bob'',
      users_activated = False, users_version = 1\<rparr>"

text \<open>
  A token plaintext of the shape the spec gives (26 characters of base32), and the 32
  bytes of its SHA-256 digest.
\<close>

definition example_plaintext :: string where
  "example_plaintext = ''Y3QMGX3PJ3WLRL2YRTQGQ6KRHU''"

definition example_digest :: string where
  "example_digest =
     [CHR 0xB6, CHR 0x27, CHR 0x62, CHR 0xD8, CHR 0x8A, CHR 0xEC, CHR 0x7A, CHR 0x8F,
      CHR 0xF1, CHR 0xAE, CHR 0xC0, CHR 0xF2, CHR 0x75, CHR 0xAC, CHR 0x0F, CHR 0x14,
      CHR 0x72, CHR 0x73, CHR 0x0A, CHR 0xFC, CHR 0x59, CHR 0x17, CHR 0xE8, CHR 0x69,
      CHR 0x8D, CHR 0x31, CHR 0xC5, CHR 0x33, CHR 0x3A, CHR 0xD0, CHR 0xC5, CHR 0xEB]"

text \<open>
  A store that answers, holding one activation token of Alice: \<open>stored_token e\<close> is its
  row, with expiry \<open>e\<close>.
\<close>

definition stored_token :: "int \<Rightarrow> tokens_row" where
  "stored_token e =
     \<lparr>tokens_hash = example_digest, tokens_user_id = 1, tokens_expiry = e,
      tokens_scope = ''activation''\<rparr>"

definition example_store :: "int \<Rightarrow> DB" where
  "example_store e = \<lparr>users = [alice, bob], tokens = [stored_token e], fault = None\<rparr>"

definition example_Tokens_New :: "int \<Rightarrow> int \<Rightarrow> string \<Rightarrow> error + Token" where
  "example_Tokens_New userID ttl scope' =
     Inr \<lparr>PlainText = example_plaintext, Hash = example_digest, UserID = userID,
          Expiry = 1700000000000000000 + ttl, Scope = scope'\<rparr>"

definition failing_Send :: "string \<Rightarrow> string \<Rightarrow> (string \<times> string) list \<Rightarrow> error option" where
  "failing_Send to' file' data' = Some (OtherError ''dial tcp: connection refused'')"

definition example_HMACSign :: "Algorithm \<Rightarrow> string \<Rightarrow> Claims \<Rightarrow> error + string" where
  "example_HMACSign alg secret c = Inr (''header.'' @ Subject c @ ''.signature'')"

text \<open>
  A stand-in for \<open>jwt.NewNumericTime\<close>: nil for the zero \<open>time.Time\<close> (January 1 of year
  1), and otherwise the exact number of seconds. The library rounds that number to a
  \<open>float64\<close>; at an instant that is a whole number of seconds, as all the instants of
  the examples are, nothing is rounded.
\<close>

definition zeroTime :: int where
  "zeroTime = - 62135596800 * 1000000000"

definition example_NewNumericTime :: "int \<Rightarrow> NumericTime option" where
  "example_NewNumericTime t = (if t = zeroTime then None else Some (of_int t / 1000000000))"


text \<open>A clock that advances by one second between two readings.\<close>

definition ticking_Now :: "nat \<Rightarrow> int" where
  "ticking_Now k = 1700000000000000000 + int k * 1000000000"

definition example_app :: application where
  "example_app =
     \<lparr>config_jwt_secret = ''0123456789abcdef0123456789abcdef'',
      models_Users = example_store 1700086400000000000,
      Tokens_New = example_Tokens_New,
      mailer_Send = failing_Send,
      EmailRX = example_EmailRX,
      CompareHashAndPassword = example_CompareHashAndPassword,
      HMACSign = example_HMACSign,
      NewNumericTime = example_NewNumericTime,
      Now = ticking_Now,
      write_err = None\<rparr>"

section \<open>Facts about the validator and the store\<close>

lemma Check_Errors:
  "Errors (Check v ok key message) =
     (if ok \<or> map_of (Errors v) key \<noteq> None then Errors v else Errors v @ [(key, message)])"
  by (auto simp: Check_def AddError_def split: option.splits)

lemma ValidateEmail_Valid:
  "Valid (ValidateEmail rx New email) = (email \<noteq> [] \<and> rx email)"
  by (auto simp: ValidateEmail_def Check_Errors Let_def Valid_def New_def)

lemma authentication_input_Valid:
  "Valid (ValidatePasswordPlainText (ValidateEmail rx New email) pw)
     = (email \<noteq> [] \<and> rx email \<and> 8 \<le> length pw \<and> length pw \<le> 32)"
  by (auto simp: ValidateEmail_def ValidatePasswordPlainText_def Check_Errors Let_def
      Valid_def New_def)

lemma GetByEmail_absent:
  assumes "fault m = None" and "email \<notin> users_email ` set (users m)"
  shows "GetByEmail m email = Inl ErrRecordNotFound"
proof -
  from assms(2) have "[u \<leftarrow> users m. users_email u = email] = []"
    by (auto simp: filter_empty_conv)
  with assms(1) show ?thesis
    by (simp add: GetByEmail_def QueryRow_def)
qed

text \<open>The expiry column is never read: rewriting every expiry changes no result.\<close>

lemma GetForToken_ignores_expiry:
  "GetForToken (m\<lparr>tokens := map (tokens_expiry_update f) (tokens m)\<rparr>) s k = GetForToken m s k"
  by (simp add: GetForToken_def QueryRow_def filter_map comp_def)

lemma GetByEmail_alice:
  "GetByEmail (example_store e) ''alice@example.com'' = Inr (Scan alice)"
  by (simp add: GetByEmail_def QueryRow_def example_store_def alice_def bob_def)

lemma GetByEmail_bob:
  "GetByEmail (example_store e) ''bob@example.com'' = Inr (Scan bob)"
  by (simp add: GetByEmail_def QueryRow_def example_store_def alice_def bob_def)

section \<open>Token resolution\<close>



text \<open>
  C2. The claim: \<open>GetForToken\<close> recomputes the digest of the presented plaintext and looks
  the row up by that digest. The code passes \<open>tokenPlainText\<close> itself as the value
  compared with \<open>tokens.hash\<close>. The store below holds the SHA-256 digest of the
  plaintext: presenting the plaintext finds no row, presenting the digest finds it.
\<close>

theorem GetForToken_plaintext_not_digested:
  "GetForToken (example_store 1700086400000000000) ''activation'' example_plaintext
     = Inl ErrRecordNotFound
   \<and> GetForToken (example_store 1700086400000000000) ''activation'' example_digest
     = Inr (Scan alice)"
  by (simp add: GetForToken_def QueryRow_def example_store_def stored_token_def alice_def
      bob_def example_digest_def example_plaintext_def)

section \<open>Authentication\<close>

text \<open>
  C3. Two authentication requests with well-shaped input, one for an email that no user
  has, one for an existing email with a password that does not match the stored hash,
  get the same response, the invalid-credentials one.
\<close>

theorem authentication_no_enumeration:
  assumes "input_Email a \<noteq> []" "EmailRX app (input_Email a)"
      "8 \<le> length (input_Password a)" "length (input_Password a) \<le> 32"
    and "input_Email b \<noteq> []" "EmailRX app (input_Email b)"
      "8 \<le> length (input_Password b)" "length (input_Password b) \<le> 32"
    and "fault (models_Users app) = None"
    and "input_Email a \<notin> users_email ` set (users (models_Users app))"
    and "GetByEmail (models_Users app) (input_Email b) = Inr user"
    and "CompareHashAndPassword app (hash (Password user)) (input_Password b)
           = Some ErrMismatchedHashAndPassword"
  shows "createAuthenticationHandler app (Inr a) = [invalidCredentialsResponse]
       \<and> createAuthenticationHandler app (Inr b) = createAuthenticationHandler app (Inr a)"
proof -
  have va: "Valid (ValidatePasswordPlainText (ValidateEmail (EmailRX app) New (input_Email a))
              (input_Password a))"
    using assms(1-4) by (simp add: authentication_input_Valid)
  have vb: "Valid (ValidatePasswordPlainText (ValidateEmail (EmailRX app) New (input_Email b))
              (input_Password b))"
    using assms(5-8) by (simp add: authentication_input_Valid)
  have ga: "GetByEmail (models_Users app) (input_Email a) = Inl ErrRecordNotFound"
    using assms(9,10) by (rule GetByEmail_absent)
  have ra: "createAuthenticationHandler app (Inr a) = [invalidCredentialsResponse]"
    using va ga by (simp add: createAuthenticationHandler_def Let_def)
  have mb: "password_Matches (CompareHashAndPassword app) (Password user) (input_Password b)
              = (False, None)"
    using assms(12) by (simp add: password_Matches_def)
  have rb: "createAuthenticationHandler app (Inr b) = [invalidCredentialsResponse]"
    using vb assms(11) mb by (simp add: createAuthenticationHandler_def Let_def)
  from ra rb show ?thesis by simp
qed

theorem authentication_no_enumeration_witness:
  "createAuthenticationHandler example_app
     (Inr \<lparr>input_Email = ''carol@example.com'', input_Password = ''pa55word''\<rparr>)
     = [invalidCredentialsResponse]
   \<and> createAuthenticationHandler example_app
     (Inr \<lparr>input_Email = ''alice@example.com'', input_Password = ''wrong-password''\<rparr>)
     = createAuthenticationHandler example_app
     (Inr \<lparr>input_Email = ''carol@example.com'', input_Password = ''pa55word''\<rparr>)"
proof -
  let ?a = "\<lparr>input_Email = ''carol@example.com'', input_Password = ''pa55word''\<rparr>"
  let ?b = "\<lparr>input_Email = ''alice@example.com'', input_Password = ''wrong-password''\<rparr>"
  have 1: "input_Email ?a \<noteq> []" "EmailRX example_app (input_Email ?a)"
      "8 \<le> length (input_Password ?a)" "length (input_Password ?a) \<le> 32"
    by (simp_all add: example_app_def example_EmailRX_def)
  have 2: "input_Email ?b \<noteq> []" "EmailRX example_app (input_Email ?b)"
      "8 \<le> length (input_Password ?b)" "length (input_Password ?b) \<le> 32"
    by (simp_all add: example_app_def example_EmailRX_def)
  have 3: "fault (models_Users example_app) = None"
    by (simp add: example_app_def example_store_def)
  have 4: "input_Email ?a \<notin> users_email ` set (users (models_Users example_app))"
    by (simp add: example_app_def example_store_def alice_def bob_def)
  have 5: "GetByEmail (models_Users example_app) (input_Email ?b) = Inr (Scan alice)"
    by (simp add: example_app_def GetByEmail_alice)
  have 6: "CompareHashAndPassword example_app (hash (Password (Scan alice))) (input_Password ?b)
           = Some ErrMismatchedHashAndPassword"
    by (simp add: example_app_def example_CompareHashAndPassword_def Scan_def alice_def)
  show ?thesis
    using authentication_no_enumeration [OF 1 2 3 4 5 6] .
qed

lemma claims_fields:
  "Subject (claims app user) = FormatInt (ID user)"
  "Issuer (claims app user) = ''agung96tm.com''"
  "Audiences (claims app user) = [''agung96tm.com'']"
  "Issued (claims app user) = NewNumericTime app (Now app 0)"
  "NotBefore (claims app user) = NewNumericTime app (Now app 1)"
  "Expires (claims app user) = NewNumericTime app (Now app 2 + 24 * Hour)"
  by (simp_all add: claims_def Add_def)

text \<open>
  The handler writes a single JSON response only at its end, after the lookup, the
  password check and the signature have all succeeded.
\<close>

lemma createAuthenticationHandler_created:
  assumes "createAuthenticationHandler app body = [writeJSON status envelope]"
  shows "\<exists>input user jwtBytes.
           body = Inr input
         \<and> GetByEmail (models_Users app) (input_Email input) = Inr user
         \<and> CompareHashAndPassword app (hash (Password user)) (input_Password input) = None
         \<and> HMACSign app HS256 (config_jwt_secret app) (claims app user) = Inr jwtBytes
         \<and> status = StatusCreated
         \<and> envelope = [(''authentication_token'', jwtBytes)]"
  using assms
  by (auto simp: createAuthenticationHandler_def Let_def respondJSON_def password_Matches_def
      split: sum.splits if_splits option.splits prod.splits)

lemma FormatInt_1: "FormatInt 1 = ''1''"
  by (simp add: FormatInt_def formatBits.simps digit_def)

lemma example_authentication:
  "createAuthenticationHandler example_app
     (Inr \<lparr>input_Email = ''alice@example.com'', input_Password = ''pa55word''\<rparr>)
   = [writeJSON StatusCreated [(''authentication_token'', ''header.1.signature'')]]"
  by (simp add: createAuthenticationHandler_def Let_def authentication_input_Valid
      respondJSON_def password_Matches_def GetByEmail_alice claims_def FormatInt_1
      example_app_def example_EmailRX_def example_CompareHashAndPassword_def
      example_HMACSign_def Scan_def alice_def)

text \<open>
  C7, as the claim states it: the issued and not-before claims both equal one issuance
  time, and the expiry is that time plus 24 hours. The handler reads the clock three
  times. With a clock that advances by a second between readings, Alice's successful
  authentication is signed over claims whose not-before differs from issued, and whose
  expiry is not the time of issued plus 24 hours.
\<close>

theorem authentication_claims_counterexample:
  "createAuthenticationHandler example_app
     (Inr \<lparr>input_Email = ''alice@example.com'', input_Password = ''pa55word''\<rparr>)
   = [writeJSON StatusCreated [(''authentication_token'', ''header.1.signature'')]]
   \<and> Issued (claims example_app (Scan alice)) = Some 1700000000
   \<and> NotBefore (claims example_app (Scan alice)) = Some 1700000001
   \<and> Expires (claims example_app (Scan alice)) = Some 1700086402
   \<and> NotBefore (claims example_app (Scan alice)) \<noteq> Issued (claims example_app (Scan alice))
   \<and> Expires (claims example_app (Scan alice))
       \<noteq> NewNumericTime example_app (1700000000000000000 + 24 * Hour)"
proof -
  have "Issued (claims example_app (Scan alice)) = Some 1700000000"
    "NotBefore (claims example_app (Scan alice)) = Some 1700000001"
    "Expires (claims example_app (Scan alice)) = Some 1700086402"
    "NewNumericTime example_app (1700000000000000000 + 24 * Hour) = Some 1700086400"
    by (simp_all add: claims_fields example_NewNumericTime_def zeroTime_def Hour_def
        example_app_def ticking_Now_def)
  with example_authentication show ?thesis
    by simp
qed

text \<open>
  C7, amended. Whenever the authentication handler answers with a single JSON response,
  that response has status 201 and carries the token that \<open>HMACSign\<close> returned for
  algorithm HS256, the configured secret and the claims of the user found by email,
  whose password matched. In these claims the subject is the user's id in decimal,
  issuer and audience are \<open>agung96tm.com\<close>, and the three times are what
  \<open>jwt.NewNumericTime\<close> returns for three successive readings of the clock: issued for
  the first, not-before for the second, and expires for the third plus 24 hours.
\<close>

theorem authentication_signed_claims:
  assumes "createAuthenticationHandler app body = [writeJSON status envelope]"
  shows "\<exists>input user jwtBytes.
           body = Inr input
         \<and> GetByEmail (models_Users app) (input_Email input) = Inr user
         \<and> CompareHashAndPassword app (hash (Password user)) (input_Password input) = None
         \<and> status = StatusCreated
         \<and> envelope = [(''authentication_token'', jwtBytes)]
         \<and> HMACSign app HS256 (config_jwt_secret app) (claims app user) = Inr jwtBytes
         \<and> Subject (claims app user) = FormatInt (ID user)
         \<and> Issuer (claims app user) = ''agung96tm.com''
         \<and> Audiences (claims app user) = [''agung96tm.com'']
         \<and> Issued (claims app user) = NewNumericTime app (Now app 0)
         \<and> NotBefore (claims app user) = NewNumericTime app (Now app 1)
         \<and> Expires (claims app user)
             = NewNumericTime app (Now app 2 + 24 * 3600 * 1000000000)"
proof -
  from createAuthenticationHandler_created [OF assms]
  obtain input user jwtBytes where h:
    "body = Inr input"
    "GetByEmail (models_Users app) (input_Email input) = Inr user"
    "CompareHashAndPassword app (hash (Password user)) (input_Password input) = None"
    "HMACSign app HS256 (config_jwt_secret app) (claims app user) = Inr jwtBytes"
    "status = StatusCreated"
    "envelope = [(''authentication_token'', jwtBytes)]"
    by blast
  then show ?thesis by (simp add: claims_fields Hour_def)
qed

theorem authentication_signed_claims_witness:
  "HMACSign example_app HS256 (config_jwt_secret example_app) (claims example_app (Scan alice))
     = Inr ''header.1.signature''
   \<and> Subject (claims example_app (Scan alice)) = ''1''
   \<and> Issued (claims example_app (Scan alice)) = Some 1700000000
   \<and> NotBefore (claims example_app (Scan alice)) = Some 1700000001
   \<and> Expires (claims example_app (Scan alice)) = Some 1700086402"
proof -
  from authentication_signed_claims [OF example_authentication]
  obtain input user jwtBytes where h:
    "Inr \<lparr>input_Email = ''alice@example.com'', input_Password = ''pa55word''\<rparr> = Inr input"
    "GetByEmail (models_Users example_app) (input_Email input) = Inr user"
    "[(''authentication_token'', ''header.1.signature'')] = [(''authentication_token'', jwtBytes)]"
    "HMACSign example_app HS256 (config_jwt_secret example_app) (claims example_app user)
       = Inr jwtBytes"
    "Subject (claims example_app user) = FormatInt (ID user)"
    "Issued (claims example_app user) = NewNumericTime example_app (Now example_app 0)"
    "NotBefore (claims example_app user) = NewNumericTime example_app (Now example_app 1)"
    "Expires (claims example_app user)
       = NewNumericTime example_app (Now example_app 2 + 24 * 3600 * 1000000000)"
    by blast
  from h(1) have i: "input = \<lparr>input_Email = ''alice@example.com'', input_Password = ''pa55word''\<rparr>"
    by simp
  from h(2) i have u: "user = Scan alice"
    by (simp add: example_app_def GetByEmail_alice)
  from h(3) have j: "jwtBytes = ''header.1.signature''" by simp
  have s: "FormatInt (ID (Scan alice)) = ''1''"
    by (simp add: FormatInt_1 Scan_def alice_def)
  from h(4-8) u j s show ?thesis
    by (simp add: example_app_def ticking_Now_def example_NewNumericTime_def zeroTime_def)
qed

section \<open>The credential\<close>

text \<open>
  C4, as the claim states it: after a successful \<open>Set\<close> the plaintext is no longer held.
  The code stores a pointer to it: after setting \<open>pa55word\<close> on an empty credential,
  \<open>plainText\<close> holds \<open>pa55word\<close>.
\<close>

theorem password_Set_counterexample:
  "fst (password_Set example_GenerateFromPassword \<lparr>plainText = None, hash = None\<rparr>
          ''pa55word'') = None
   \<and> plainText (snd (password_Set example_GenerateFromPassword
          \<lparr>plainText = None, hash = None\<rparr> ''pa55word'')) = Some ''pa55word''"
  by (simp add: password_Set_def example_GenerateFromPassword_def)

text \<open>
  C4, amended. After a successful \<open>Set\<close> the credential holds the hash that bcrypt
  returned for the plaintext at cost 12, and it holds the plaintext too (which
  \<open>ValidateUser\<close> reads afterwards).
\<close>

theorem password_Set_retains_plainText:
  "fst (password_Set gen p pt) = None \<Longrightarrow>
   plainText (snd (password_Set gen p pt)) = Some pt
   \<and> (\<exists>h. gen pt 12 = Inr h \<and> hash (snd (password_Set gen p pt)) = Some h)"
  by (auto simp: password_Set_def split: sum.splits)

theorem password_Set_retains_plainText_witness:
  "fst (password_Set example_GenerateFromPassword \<lparr>plainText = None, hash = None\<rparr>
          ''pa55word'') = None
   \<and> plainText (snd (password_Set example_GenerateFromPassword
          \<lparr>plainText = None, hash = None\<rparr> ''pa55word'')) = Some ''pa55word''
   \<and> hash (snd (password_Set example_GenerateFromPassword
          \<lparr>plainText = None, hash = None\<rparr> ''pa55word'')) = Some ''$2a$12$drow55ap''"
  using password_Set_retains_plainText
    [of example_GenerateFromPassword "\<lparr>plainText = None, hash = None\<rparr>" "''pa55word''"]
  by (simp add: password_Set_def example_GenerateFromPassword_def)

text \<open>
  C5. \<open>Matches\<close> returns (true, nil) exactly when bcrypt reports a match, (false, nil)
  exactly when bcrypt reports that the well-formed hash is of another password, and an
  error exactly when bcrypt reports any other error, which it then returns as it is.
\<close>

theorem password_Matches_outcomes:
  "(password_Matches cmp p c = (True, None)) = (cmp (hash p) c = None)
   \<and> (password_Matches cmp p c = (False, None))
       = (cmp (hash p) c = Some ErrMismatchedHashAndPassword)
   \<and> (snd (password_Matches cmp p c) = Some e)
       = (cmp (hash p) c = Some e \<and> e \<noteq> ErrMismatchedHashAndPassword)
   \<and> fst (password_Matches cmp p c) = (cmp (hash p) c = None)"
  by (auto simp: password_Matches_def split: option.splits)

section \<open>Validation\<close>

text \<open>
  C8. On a validator that holds no error for the field \<open>password\<close> yet (a fresh one,
  or one that has checked other fields), \<open>ValidatePasswordPlainText\<close> records no error
  exactly when the password is not empty and has between 8 and 32 bytes, both included.
  The witness runs it on a fresh validator: 8 and 32 bytes pass, 7 and 33 do not.
\<close>

theorem ValidatePasswordPlainText_policy:
  "map_of (Errors v) ''password'' = None \<Longrightarrow>
   (Errors (ValidatePasswordPlainText v pw) = Errors v)
     = (pw \<noteq> [] \<and> 8 \<le> length pw \<and> length pw \<le> 32)"
  by (auto simp: ValidatePasswordPlainText_def Check_Errors Let_def)

theorem ValidatePasswordPlainText_policy_witness:
  "Valid (ValidatePasswordPlainText New ''12345678'')
   \<and> Valid (ValidatePasswordPlainText New ''12345678901234567890123456789012'')
   \<and> \<not> Valid (ValidatePasswordPlainText New ''1234567'')
   \<and> \<not> Valid (ValidatePasswordPlainText New ''123456789012345678901234567890123'')"
  using ValidatePasswordPlainText_policy [of New "''12345678''"]
    ValidatePasswordPlainText_policy [of New "''12345678901234567890123456789012''"]
    ValidatePasswordPlainText_policy [of New "''1234567''"]
    ValidatePasswordPlainText_policy [of New "''123456789012345678901234567890123''"]
  by (simp add: New_def Valid_def)

text \<open>
  C10. For a user whose password hash is nil, \<open>ValidateUser\<close> panics, whatever the other
  fields are and whatever the validator has recorded: it returns no validator.
\<close>

theorem ValidateUser_panics_without_hash:
  "hash (Password u) = None \<Longrightarrow> ValidateUser rx v u = Inl ''missing password hash for user''"
  by (simp add: ValidateUser_def Let_def)

theorem ValidateUser_panics_without_hash_witness:
  "hash \<lparr>plainText = Some ''short'', hash = None\<rparr> = None \<and>
   ValidateUser example_EmailRX New
     \<lparr>ID = 1, CreatedAt = 0, Name = [], Email = ''alice@example.com'',
      Password = \<lparr>plainText = Some ''short'', hash = None\<rparr>,
      Activated = False, Version = 1\<rparr> = Inl ''missing password hash for user''"
  using ValidateUser_panics_without_hash
    [of "\<lparr>ID = 1, CreatedAt = 0, Name = [], Email = ''alice@example.com'',
          Password = \<lparr>plainText = Some ''short'', hash = None\<rparr>,
          Activated = False, Version = 1\<rparr>" example_EmailRX New]
  by simp

section \<open>The token requests and their background mail\<close>

lemma createPasswordResetTokenHandler_issued:
  assumes "in_Email i \<noteq> []" "EmailRX app (in_Email i)"
    and "GetByEmail (models_Users app) (in_Email i) = Inr u" "Activated u"
    and "Tokens_New app (ID u) (24 * Hour) ScopePasswordReset = Inr t"
  shows "createPasswordResetTokenHandler app (Inr i) =
           \<lparr>responses = respondJSON app StatusAccepted
              [(''message'', ''Success to Send Reset Password'')],
            background = [\<lparr>recipient = Email u, templateFile = ''token_password_reset'',
                           data = [(''passwordResetToken'', PlainText t)]\<rparr>]\<rparr>"
  using assms by (simp add: createPasswordResetTokenHandler_def Let_def ValidateEmail_Valid)

lemma createActivationTokenHandler_issued:
  assumes "in_Email i \<noteq> []" "EmailRX app (in_Email i)"
    and "GetByEmail (models_Users app) (in_Email i) = Inr u" "\<not> Activated u"
    and "Tokens_New app (ID u) (24 * Hour) ScopeActivation = Inr t"
  shows "createActivationTokenHandler app (Inr i) =
           \<lparr>responses = respondJSON app StatusAccepted
              [(''message'', ''success send email activation'')],
            background = [\<lparr>recipient = Email u, templateFile = ''token_activation'',
                           data = [(''activationToken'', PlainText t)]\<rparr>]\<rparr>"
  using assms by (simp add: createActivationTokenHandler_def Let_def ValidateEmail_Valid)

lemma example_reset_path:
  "in_Email \<lparr>in_Email = ''alice@example.com''\<rparr> \<noteq> []"
  "EmailRX example_app (in_Email \<lparr>in_Email = ''alice@example.com''\<rparr>)"
  "GetByEmail (models_Users example_app) (in_Email \<lparr>in_Email = ''alice@example.com''\<rparr>)
     = Inr (Scan alice)"
  "Activated (Scan alice)"
  "Tokens_New example_app (ID (Scan alice)) (24 * Hour) ScopePasswordReset
     = Inr \<lparr>PlainText = example_plaintext, Hash = example_digest, UserID = 1,
            Expiry = 1700086400000000000, Scope = ''password_reset''\<rparr>"
  by (simp_all add: example_app_def example_EmailRX_def GetByEmail_alice Scan_def alice_def
      example_Tokens_New_def Hour_def ScopePasswordReset_def)

lemma example_activation_path:
  "in_Email \<lparr>in_Email = ''bob@example.com''\<rparr> \<noteq> []"
  "EmailRX example_app (in_Email \<lparr>in_Email = ''bob@example.com''\<rparr>)"
  "GetByEmail (models_Users example_app) (in_Email \<lparr>in_Email = ''bob@example.com''\<rparr>)
     = Inr (Scan bob)"
  "\<not> Activated (Scan bob)"
  "Tokens_New example_app (ID (Scan bob)) (24 * Hour) ScopeActivation
     = Inr \<lparr>PlainText = example_plaintext, Hash = example_digest, UserID = 2,
            Expiry = 1700086400000000000, Scope = ''activation''\<rparr>"
  by (simp_all add: example_app_def example_EmailRX_def GetByEmail_bob Scan_def bob_def
      example_Tokens_New_def Hour_def ScopeActivation_def)

lemma example_write_err: "write_err example_app = None"
  by (simp add: example_app_def)

lemma serve_one:
  "serve \<lparr>responses = rs, background = [c]\<rparr> app =
     (rs, \<lparr>logger = (case mailer_Send app (recipient c) (templateFile c) (data c) of
                       Some err \<Rightarrow> [err] | None \<Rightarrow> []),
           mailer_calls = [(recipient c, templateFile c, data c)]\<rparr>)"
  by (simp add: serve_def run_closure_def Let_def split: option.splits)

text \<open>
  C6. When a password-reset request gets its token and the response is written, the
  response is the status 202 with one \<open>message\<close> field holding a fixed text, the same
  whatever token was issued, and the one call the mailer receives from the background
  task carries the token's plaintext. The same holds of an activation request.
\<close>

theorem token_response_without_plaintext:
  "(in_Email i \<noteq> [] \<and> EmailRX app (in_Email i)
      \<and> GetByEmail (models_Users app) (in_Email i) = Inr u \<and> Activated u
      \<and> Tokens_New app (ID u) (24 * Hour) ScopePasswordReset = Inr t
      \<and> write_err app = None
    \<longrightarrow> responses (createPasswordResetTokenHandler app (Inr i))
          = [writeJSON StatusAccepted [(''message'', ''Success to Send Reset Password'')]]
      \<and> responses (createPasswordResetTokenHandler
                     (app\<lparr>Tokens_New := (\<lambda>userID ttl scope'. Inr other)\<rparr>) (Inr i))
          = responses (createPasswordResetTokenHandler app (Inr i))
      \<and> mailer_calls (snd (serve (createPasswordResetTokenHandler app (Inr i)) app))
          = [(Email u, ''token_password_reset'', [(''passwordResetToken'', PlainText t)])])
   \<and> (in_Email i' \<noteq> [] \<and> EmailRX app (in_Email i')
      \<and> GetByEmail (models_Users app) (in_Email i') = Inr u' \<and> \<not> Activated u'
      \<and> Tokens_New app (ID u') (24 * Hour) ScopeActivation = Inr t'
      \<and> write_err app = None
    \<longrightarrow> responses (createActivationTokenHandler app (Inr i'))
          = [writeJSON StatusAccepted [(''message'', ''success send email activation'')]]
      \<and> responses (createActivationTokenHandler
                     (app\<lparr>Tokens_New := (\<lambda>userID ttl scope'. Inr other)\<rparr>) (Inr i'))
          = responses (createActivationTokenHandler app (Inr i'))
      \<and> mailer_calls (snd (serve (createActivationTokenHandler app (Inr i')) app))
          = [(Email u', ''token_activation'', [(''activationToken'', PlainText t')])])"
proof (intro conjI impI)
  let ?app = "app\<lparr>Tokens_New := (\<lambda>userID ttl scope'. Inr other)\<rparr>"
  assume h: "in_Email i \<noteq> [] \<and> EmailRX app (in_Email i)
      \<and> GetByEmail (models_Users app) (in_Email i) = Inr u \<and> Activated u
      \<and> Tokens_New app (ID u) (24 * Hour) ScopePasswordReset = Inr t
      \<and> write_err app = None"
  then have r: "createPasswordResetTokenHandler app (Inr i) =
           \<lparr>responses = respondJSON app StatusAccepted
              [(''message'', ''Success to Send Reset Password'')],
            background = [\<lparr>recipient = Email u, templateFile = ''token_password_reset'',
                           data = [(''passwordResetToken'', PlainText t)]\<rparr>]\<rparr>"
    by (intro createPasswordResetTokenHandler_issued) simp_all
  from h have r': "createPasswordResetTokenHandler ?app (Inr i) =
           \<lparr>responses = respondJSON ?app StatusAccepted
              [(''message'', ''Success to Send Reset Password'')],
            background = [\<lparr>recipient = Email u, templateFile = ''token_password_reset'',
                           data = [(''passwordResetToken'', PlainText other)]\<rparr>]\<rparr>"
    by (intro createPasswordResetTokenHandler_issued) simp_all
  from h r show "responses (createPasswordResetTokenHandler app (Inr i))
          = [writeJSON StatusAccepted [(''message'', ''Success to Send Reset Password'')]]"
    by (simp add: respondJSON_def)
  from r r' show "responses (createPasswordResetTokenHandler ?app (Inr i))
          = responses (createPasswordResetTokenHandler app (Inr i))"
    by (simp add: respondJSON_def)
  from r show "mailer_calls (snd (serve (createPasswordResetTokenHandler app (Inr i)) app))
          = [(Email u, ''token_password_reset'', [(''passwordResetToken'', PlainText t)])]"
    by (simp add: serve_one)
next
  let ?app = "app\<lparr>Tokens_New := (\<lambda>userID ttl scope'. Inr other)\<rparr>"
  assume h: "in_Email i' \<noteq> [] \<and> EmailRX app (in_Email i')
      \<and> GetByEmail (models_Users app) (in_Email i') = Inr u' \<and> \<not> Activated u'
      \<and> Tokens_New app (ID u') (24 * Hour) ScopeActivation = Inr t'
      \<and> write_err app = None"
  then have r: "createActivationTokenHandler app (Inr i') =
           \<lparr>responses = respondJSON app StatusAccepted
              [(''message'', ''success send email activation'')],
            background = [\<lparr>recipient = Email u', templateFile = ''token_activation'',
                           data = [(''activationToken'', PlainText t')]\<rparr>]\<rparr>"
    by (intro createActivationTokenHandler_issued) simp_all
  from h have r': "createActivationTokenHandler ?app (Inr i') =
           \<lparr>responses = respondJSON ?app StatusAccepted
              [(''message'', ''success send email activation'')],
            background = [\<lparr>recipient = Email u', templateFile = ''token_activation'',
                           data = [(''activationToken'', PlainText other)]\<rparr>]\<rparr>"
    by (intro createActivationTokenHandler_issued) simp_all
  from h r show "responses (createActivationTokenHandler app (Inr i'))
          = [writeJSON StatusAccepted [(''message'', ''success send email activation'')]]"
    by (simp add: respondJSON_def)
  from r r' show "responses (createActivationTokenHandler ?app (Inr i'))
          = responses (createActivationTokenHandler app (Inr i'))"
    by (simp add: respondJSON_def)
  from r show "mailer_calls (snd (serve (createActivationTokenHandler app (Inr i')) app))
          = [(Email u', ''token_activation'', [(''activationToken'', PlainText t')])]"
    by (simp add: serve_one)
qed

theorem token_response_without_plaintext_witness:
  "responses (createPasswordResetTokenHandler example_app
                (Inr \<lparr>in_Email = ''alice@example.com''\<rparr>))
     = [writeJSON StatusAccepted [(''message'', ''Success to Send Reset Password'')]]
   \<and> mailer_calls (snd (serve (createPasswordResetTokenHandler example_app
                (Inr \<lparr>in_Email = ''alice@example.com''\<rparr>)) example_app))
     = [(''alice@example.com'', ''token_password_reset'',
         [(''passwordResetToken'', ''Y3QMGX3PJ3WLRL2YRTQGQ6KRHU'')])]
   \<and> responses (createActivationTokenHandler example_app
                (Inr \<lparr>in_Email = ''bob@example.com''\<rparr>))
     = [writeJSON StatusAccepted [(''message'', ''success send email activation'')]]
   \<and> mailer_calls (snd (serve (createActivationTokenHandler example_app
                (Inr \<lparr>in_Email = ''bob@example.com''\<rparr>)) example_app))
     = [(''bob@example.com'', ''token_activation'',
         [(''activationToken'', ''Y3QMGX3PJ3WLRL2YRTQGQ6KRHU'')])]"
proof -
  note t = token_response_without_plaintext
    [where app = example_app
       and i = "\<lparr>in_Email = ''alice@example.com''\<rparr>" and u = "Scan alice"
       and t = "\<lparr>PlainText = example_plaintext, Hash = example_digest, UserID = 1,
                  Expiry = 1700086400000000000, Scope = ''password_reset''\<rparr>"
       and i' = "\<lparr>in_Email = ''bob@example.com''\<rparr>" and u' = "Scan bob"
       and t' = "\<lparr>PlainText = example_plaintext, Hash = example_digest, UserID = 2,
                   Expiry = 1700086400000000000, Scope = ''activation''\<rparr>"]
  from t [THEN conjunct1] example_reset_path example_write_err
  have 1: "responses (createPasswordResetTokenHandler example_app
                (Inr \<lparr>in_Email = ''alice@example.com''\<rparr>))
       = [writeJSON StatusAccepted [(''message'', ''Success to Send Reset Password'')]]
     \<and> mailer_calls (snd (serve (createPasswordResetTokenHandler example_app
                (Inr \<lparr>in_Email = ''alice@example.com''\<rparr>)) example_app))
       = [(''alice@example.com'', ''token_password_reset'',
           [(''passwordResetToken'', ''Y3QMGX3PJ3WLRL2YRTQGQ6KRHU'')])]"
    by (simp add: Scan_def alice_def example_plaintext_def)
  from t [THEN conjunct2] example_activation_path example_write_err
  have 2: "responses (createActivationTokenHandler example_app
                (Inr \<lparr>in_Email = ''bob@example.com''\<rparr>))
       = [writeJSON StatusAccepted [(''message'', ''success send email activation'')]]
     \<and> mailer_calls (snd (serve (createActivationTokenHandler example_app
                (Inr \<lparr>in_Email = ''bob@example.com''\<rparr>)) example_app))
       = [(''bob@example.com'', ''token_activation'',
           [(''activationToken'', ''Y3QMGX3PJ3WLRL2YRTQGQ6KRHU'')])]"
    by (simp add: Scan_def bob_def example_plaintext_def)
  from 1 2 show ?thesis by simp
qed

text \<open>
  C9. When a password-reset request gets its token and the response is written, the
  request as a whole yields the 202 response whatever the mailer does: the background
  task calls the mailer once, and when the send fails its error is printed to the log
  and nothing else happens. The same holds of an activation request.
\<close>

theorem background_send_error_only_logged:
  "(in_Email i \<noteq> [] \<and> EmailRX app (in_Email i)
      \<and> GetByEmail (models_Users app) (in_Email i) = Inr u \<and> Activated u
      \<and> Tokens_New app (ID u) (24 * Hour) ScopePasswordReset = Inr t
      \<and> write_err app = None
    \<longrightarrow> serve (createPasswordResetTokenHandler app (Inr i)) app
          = ([writeJSON StatusAccepted [(''message'', ''Success to Send Reset Password'')]],
             \<lparr>logger = (case mailer_Send app (Email u) ''token_password_reset''
                                [(''passwordResetToken'', PlainText t)] of
                          Some err \<Rightarrow> [err] | None \<Rightarrow> []),
              mailer_calls = [(Email u, ''token_password_reset'',
                               [(''passwordResetToken'', PlainText t)])]\<rparr>)
      \<and> responses (createPasswordResetTokenHandler (app\<lparr>mailer_Send := send\<rparr>) (Inr i))
          = [writeJSON StatusAccepted [(''message'', ''Success to Send Reset Password'')]])
   \<and> (in_Email i' \<noteq> [] \<and> EmailRX app (in_Email i')
      \<and> GetByEmail (models_Users app) (in_Email i') = Inr u' \<and> \<not> Activated u'
      \<and> Tokens_New app (ID u') (24 * Hour) ScopeActivation = Inr t'
      \<and> write_err app = None
    \<longrightarrow> serve (createActivationTokenHandler app (Inr i')) app
          = ([writeJSON StatusAccepted [(''message'', ''success send email activation'')]],
             \<lparr>logger = (case mailer_Send app (Email u') ''token_activation''
                                [(''activationToken'', PlainText t')] of
                          Some err \<Rightarrow> [err] | None \<Rightarrow> []),
              mailer_calls = [(Email u', ''token_activation'',
                               [(''activationToken'', PlainText t')])]\<rparr>)
      \<and> responses (createActivationTokenHandler (app\<lparr>mailer_Send := send\<rparr>) (Inr i'))
          = [writeJSON StatusAccepted [(''message'', ''success send email activation'')]])"
proof (intro conjI impI)
  let ?app = "app\<lparr>mailer_Send := send\<rparr>"
  assume h: "in_Email i \<noteq> [] \<and> EmailRX app (in_Email i)
      \<and> GetByEmail (models_Users app) (in_Email i) = Inr u \<and> Activated u
      \<and> Tokens_New app (ID u) (24 * Hour) ScopePasswordReset = Inr t
      \<and> write_err app = None"
  then have r: "createPasswordResetTokenHandler app (Inr i) =
           \<lparr>responses = respondJSON app StatusAccepted
              [(''message'', ''Success to Send Reset Password'')],
            background = [\<lparr>recipient = Email u, templateFile = ''token_password_reset'',
                           data = [(''passwordResetToken'', PlainText t)]\<rparr>]\<rparr>"
    by (intro createPasswordResetTokenHandler_issued) simp_all
  from h have r': "createPasswordResetTokenHandler ?app (Inr i) =
           \<lparr>responses = respondJSON ?app StatusAccepted
              [(''message'', ''Success to Send Reset Password'')],
            background = [\<lparr>recipient = Email u, templateFile = ''token_password_reset'',
                           data = [(''passwordResetToken'', PlainText t)]\<rparr>]\<rparr>"
    by (intro createPasswordResetTokenHandler_issued) simp_all
  from h r show "serve (createPasswordResetTokenHandler app (Inr i)) app
          = ([writeJSON StatusAccepted [(''message'', ''Success to Send Reset Password'')]],
             \<lparr>logger = (case mailer_Send app (Email u) ''token_password_reset''
                                [(''passwordResetToken'', PlainText t)] of
                          Some err \<Rightarrow> [err] | None \<Rightarrow> []),
              mailer_calls = [(Email u, ''token_password_reset'',
                               [(''passwordResetToken'', PlainText t)])]\<rparr>)"
    by (simp add: serve_one respondJSON_def)
  from h r' show "responses (createPasswordResetTokenHandler ?app (Inr i))
          = [writeJSON StatusAccepted [(''message'', ''Success to Send Reset Password'')]]"
    by (simp add: respondJSON_def)
next
  let ?app = "app\<lparr>mailer_Send := send\<rparr>"
  assume h: "in_Email i' \<noteq> [] \<and> EmailRX app (in_Email i')
      \<and> GetByEmail (models_Users app) (in_Email i') = Inr u' \<and> \<not> Activated u'
      \<and> Tokens_New app (ID u') (24 * Hour) ScopeActivation = Inr t'
      \<and> write_err app = None"
  then have r: "createActivationTokenHandler app (Inr i') =
           \<lparr>responses = respondJSON app StatusAccepted
              [(''message'', ''success send email activation'')],
            background = [\<lparr>recipient = Email u', templateFile = ''token_activation'',
                           data = [(''activationToken'', PlainText t')]\<rparr>]\<rparr>"
    by (intro createActivationTokenHandler_issued) simp_all
  from h have r': "createActivationTokenHandler ?app (Inr i') =
           \<lparr>responses = respondJSON ?app StatusAccepted
              [(''message'', ''success send email activation'')],
            background = [\<lparr>recipient = Email u', templateFile = ''token_activation'',
                           data = [(''activationToken'', PlainText t')]\<rparr>]\<rparr>"
    by (intro createActivationTokenHandler_issued) simp_all
  from h r show "serve (createActivationTokenHandler app (Inr i')) app
          = ([writeJSON StatusAccepted [(''message'', ''success send email activation'')]],
             \<lparr>logger = (case mailer_Send app (Email u') ''token_activation''
                                [(''activationToken'', PlainText t')] of
                          Some err \<Rightarrow> [err] | None \<Rightarrow> []),
              mailer_calls = [(Email u', ''token_activation'',
                               [(''activationToken'', PlainText t')])]\<rparr>)"
    by (simp add: serve_one respondJSON_def)
  from h r' show "responses (createActivationTokenHandler ?app (Inr i'))
          = [writeJSON StatusAccepted [(''message'', ''success send email activation'')]]"
    by (simp add: respondJSON_def)
qed

theorem background_send_error_only_logged_witness:
  "serve (createPasswordResetTokenHandler example_app (Inr \<lparr>in_Email = ''alice@example.com''\<rparr>))
     example_app
     = ([writeJSON StatusAccepted [(''message'', ''Success to Send Reset Password'')]],
        \<lparr>logger = [OtherError ''dial tcp: connection refused''],
         mailer_calls = [(''alice@example.com'', ''token_password_reset'',
                          [(''passwordResetToken'', ''Y3QMGX3PJ3WLRL2YRTQGQ6KRHU'')])]\<rparr>)
   \<and> serve (createActivationTokenHandler example_app (Inr \<lparr>in_Email = ''bob@example.com''\<rparr>))
     example_app
     = ([writeJSON StatusAccepted [(''message'', ''success send email activation'')]],
        \<lparr>logger = [OtherError ''dial tcp: connection refused''],
         mailer_calls = [(''bob@example.com'', ''token_activation'',
                          [(''activationToken'', ''Y3QMGX3PJ3WLRL2YRTQGQ6KRHU'')])]\<rparr>)"
proof -
  note t = background_send_error_only_logged
    [where app = example_app
       and i = "\<lparr>in_Email = ''alice@example.com''\<rparr>" and u = "Scan alice"
       and t = "\<lparr>PlainText = example_plaintext, Hash = example_digest, UserID = 1,
                  Expiry = 1700086400000000000, Scope = ''password_reset''\<rparr>"
       and i' = "\<lparr>in_Email = ''bob@example.com''\<rparr>" and u' = "Scan bob"
       and t' = "\<lparr>PlainText = example_plaintext, Hash = example_digest, UserID = 2,
                   Expiry = 1700086400000000000, Scope = ''activation''\<rparr>"]
  have s: "mailer_Send example_app = failing_Send"
    by (simp add: example_app_def)
  from t [THEN conjunct1] example_reset_path example_write_err
  have 1: "serve (createPasswordResetTokenHandler example_app
             (Inr \<lparr>in_Email = ''alice@example.com''\<rparr>)) example_app
     = ([writeJSON StatusAccepted [(''message'', ''Success to Send Reset Password'')]],
        \<lparr>logger = [OtherError ''dial tcp: connection refused''],
         mailer_calls = [(''alice@example.com'', ''token_password_reset'',
                          [(''passwordResetToken'', ''Y3QMGX3PJ3WLRL2YRTQGQ6KRHU'')])]\<rparr>)"
    by (simp add: s failing_Send_def Scan_def alice_def example_plaintext_def)
  from t [THEN conjunct2] example_activation_path example_write_err
  have 2: "serve (createActivationTokenHandler example_app
             (Inr \<lparr>in_Email = ''bob@example.com''\<rparr>)) example_app
     = ([writeJSON StatusAccepted [(''message'', ''success send email activation'')]],
        \<lparr>logger = [OtherError ''dial tcp: connection refused''],
         mailer_calls = [(''bob@example.com'', ''token_activation'',
                          [(''activationToken'', ''Y3QMGX3PJ3WLRL2YRTQGQ6KRHU'')])]\<rparr>)"
    by (simp add: s failing_Send_def Scan_def bob_def example_plaintext_def)
  from 1 2 show ?thesis by simp
qed

end
